theory Spec2Isabelle
  imports Main "HOL-Library.Sublist"
begin

section \<open>Values and dependency identities\<close>

text \<open>
  Go's \<^verbatim>\<open>interface{}\<close> values held by the cache: the nil interface, a string, or a value
  of some other dynamic type, which the engine never inspects (given by a tag).
\<close>

datatype val = Nil | Str string | Other nat

text \<open>
  \<^verbatim>\<open>IDer\<close> (store.go) is the interface of everything with a \<^verbatim>\<open>String()\<close> method.
  \<open>FileQuery p\<close> is file.go's \<^verbatim>\<open>*FileQuery\<close> with path \<open>p\<close>; \<open>Named s n\<close> stands for an
  object of any other implementing type: \<open>s\<close> is what its \<^verbatim>\<open>String()\<close> returns and \<open>n\<close>
  tells two objects with the same identity apart.
\<close>

datatype IDer = FileQuery string | Named string nat

text \<open>\<^verbatim>\<open>func (d *FileQuery) String() string { return fmt.Sprintf("file(%s)", d.path) }\<close>\<close>

fun String :: "IDer \<Rightarrow> string" where
  "String (FileQuery p) = ''file('' @ p @ '')''"
| "String (Named s n) = s"

section \<open>The store (store.go)\<close>

text \<open>
  \<^verbatim>\<open>data map[string]interface{}\<close> and \<^verbatim>\<open>receivedData map[string]struct{}\<close>. The mutex is
  left out: every method holds it for its whole body, so a method is one atomic step.
\<close>

record Store =
  data :: "string \<rightharpoonup> val"
  receivedData :: "string \<rightharpoonup> unit"

definition NewStore :: Store where
  "NewStore = \<lparr>data = Map.empty, receivedData = Map.empty\<rparr>"

definition Save :: "Store \<Rightarrow> IDer \<Rightarrow> val \<Rightarrow> Store" where
  "Save s d v =
     s\<lparr>data := (data s)(String d \<mapsto> v),
       receivedData := (receivedData s)(String d \<mapsto> ())\<rparr>"

text \<open>Reading a Go map at an absent key gives the zero value, here the nil interface.\<close>

definition Recall :: "Store \<Rightarrow> IDer \<Rightarrow> val \<times> bool" where
  "Recall s d =
     (case receivedData s (String d) of
        None \<Rightarrow> (Nil, False)
      | Some _ \<Rightarrow> ((case data s (String d) of None \<Rightarrow> Nil | Some v \<Rightarrow> v), True))"

definition Delete :: "Store \<Rightarrow> IDer \<Rightarrow> Store" where
  "Delete s d =
     s\<lparr>data := (data s)(String d := None),
       receivedData := (receivedData s)(String d := None)\<rparr>"

text \<open>The two loops of \<^verbatim>\<open>Reset\<close> delete every key of each map.\<close>

definition Reset :: "Store \<Rightarrow> Store" where
  "Reset s = s\<lparr>data := Map.empty, receivedData := Map.empty\<rparr>"

text \<open>
  \<^verbatim>\<open>forceSet\<close>, which the tests use, does what \<^verbatim>\<open>Save\<close> does for a key given as a string. It is
  not exported and is not among the calls of the histories below.
\<close>

definition forceSet :: "Store \<Rightarrow> string \<Rightarrow> val \<Rightarrow> Store" where
  "forceSet s hashCode v =
     s\<lparr>data := (data s)(hashCode \<mapsto> v),
       receivedData := (receivedData s)(hashCode \<mapsto> ())\<rparr>"

subsection \<open>Histories of calls\<close>

text \<open>A call of one of the exported methods of a store, and its effect on the store.\<close>

datatype store_call =
  CallSave IDer val | CallRecall IDer | CallDelete IDer | CallReset

fun apply_call :: "Store \<Rightarrow> store_call \<Rightarrow> Store" where
  "apply_call s (CallSave d v) = Save s d v"
| "apply_call s (CallRecall d) = s"
| "apply_call s (CallDelete d) = Delete s d"
| "apply_call s CallReset = Reset s"

definition run_calls :: "Store \<Rightarrow> store_call list \<Rightarrow> Store" where
  "run_calls s cs = foldl apply_call s cs"

text \<open>
  What the specification says of a history, in its own words: \<open>saves_id\<close> is a call that
  passes the id to \<^verbatim>\<open>Save\<close>, \<open>removes_id\<close> one that removes it (\<^verbatim>\<open>Delete\<close> of that id, or
  \<^verbatim>\<open>Reset\<close>), and an id is \<open>saved_and_kept\<close> when some call saved it and no later call
  removed it.
\<close>

fun saves_id :: "string \<Rightarrow> store_call \<Rightarrow> bool" where
  "saves_id k (CallSave d v) = (String d = k)"
| "saves_id k _ = False"

fun removes_id :: "string \<Rightarrow> store_call \<Rightarrow> bool" where
  "removes_id k (CallDelete d) = (String d = k)"
| "removes_id k CallReset = True"
| "removes_id k _ = False"

definition saved_and_kept :: "store_call list \<Rightarrow> string \<Rightarrow> bool" where
  "saved_and_kept cs k =
     (\<exists>i < length cs. saves_id k (cs ! i) \<and>
        (\<forall>j < length cs. i < j \<longrightarrow> \<not> removes_id k (cs ! j)))"

section \<open>Errors\<close>

text \<open>
  Go \<^verbatim>\<open>error\<close> values: \<open>Error m\<close> is an error made from the message \<open>m\<close> (\<^verbatim>\<open>fmt.Errorf\<close>,
  \<^verbatim>\<open>errors.New\<close>, or an error of the operating system), \<open>Wrap e m\<close> is
  \<^verbatim>\<open>errors.Wrap(e, m)\<close>, \<open>CallError f e\<close> is the template library's wrapper around the error
  \<open>e\<close> that the helper named \<open>f\<close> returned, and \<open>Panic m\<close> is a run-time panic.
\<close>

datatype error = Error string | Wrap error string | CallError string error | Panic string

section \<open>Library functions used by the file helper\<close>

text \<open>
  \<^verbatim>\<open>strings.TrimSpace\<close> on a Go string, which is a sequence of bytes read as UTF-8: it
  removes leading and trailing white space as Unicode defines it. \<open>space_runes\<close> lists the
  UTF-8 encodings of the code points with the White_Space property: U+0009 to U+000D,
  U+0020, U+0085, U+00A0, U+1680, U+2000 to U+200A, U+2028, U+2029, U+202F, U+205F, U+3000.
  No encoding in the list is a prefix or a suffix of another one.
\<close>

definition space_runes :: "string list" where
  "space_runes =
     [[CHR 0x09], [CHR 0x0A], [CHR 0x0B], [CHR 0x0C], [CHR 0x0D], [CHR 0x20],
      [CHR 0xC2, CHR 0x85], [CHR 0xC2, CHR 0xA0],
      [CHR 0xE1, CHR 0x9A, CHR 0x80],
      [CHR 0xE2, CHR 0x80, CHR 0x80], [CHR 0xE2, CHR 0x80, CHR 0x81],
      [CHR 0xE2, CHR 0x80, CHR 0x82], [CHR 0xE2, CHR 0x80, CHR 0x83],
      [CHR 0xE2, CHR 0x80, CHR 0x84], [CHR 0xE2, CHR 0x80, CHR 0x85],
      [CHR 0xE2, CHR 0x80, CHR 0x86], [CHR 0xE2, CHR 0x80, CHR 0x87],
      [CHR 0xE2, CHR 0x80, CHR 0x88], [CHR 0xE2, CHR 0x80, CHR 0x89],
      [CHR 0xE2, CHR 0x80, CHR 0x8A],
      [CHR 0xE2, CHR 0x80, CHR 0xA8], [CHR 0xE2, CHR 0x80, CHR 0xA9],
      [CHR 0xE2, CHR 0x80, CHR 0xAF], [CHR 0xE2, CHR 0x81, CHR 0x9F],
      [CHR 0xE3, CHR 0x80, CHR 0x80]]"

text \<open>
  The number of bytes of the white-space rune a string starts with, and of the one it ends
  with; 0 when there is none. From the right the library steps back to the nearest byte that
  starts a rune and decodes from there; every encoding in \<open>space_runes\<close> has its only such
  byte first, so a string ends with a white-space rune exactly when one of the encodings is
  a suffix of it.
\<close>

definition leading_space :: "string \<Rightarrow> nat" where
  "leading_space s =
     (case find (\<lambda>r. prefix r s) space_runes of None \<Rightarrow> 0 | Some r \<Rightarrow> length r)"

definition trailing_space :: "string \<Rightarrow> nat" where
  "trailing_space s =
     (case find (\<lambda>r. suffix r s) space_runes of None \<Rightarrow> 0 | Some r \<Rightarrow> length r)"

text \<open>
  The two trimming loops, bounded by the length of the string: each round removes at least
  one byte.
\<close>

fun trim_left :: "nat \<Rightarrow> string \<Rightarrow> string" where
  "trim_left 0 s = s"
| "trim_left (Suc n) s =
     (if leading_space s = 0 then s else trim_left n (drop (leading_space s) s))"

fun trim_right :: "nat \<Rightarrow> string \<Rightarrow> string" where
  "trim_right 0 s = s"
| "trim_right (Suc n) s =
     (if trailing_space s = 0 then s
      else trim_right n (take (length s - trailing_space s) s))"

definition TrimSpace :: "string \<Rightarrow> string" where
  "TrimSpace s = (let l = trim_left (length s) s in trim_right (length l) l)"

text \<open>
  \<^verbatim>\<open>hex.EncodeToString\<close>: two lower-case hexadecimal digits for every byte.
\<close>

definition hexdigit :: "nat \<Rightarrow> char" where
  "hexdigit n = ''0123456789abcdef'' ! (n mod 16)"

definition EncodeToString :: "string \<Rightarrow> string" where
  "EncodeToString bs =
     concat (map (\<lambda>c. [hexdigit (of_char c div 16), hexdigit (of_char c mod 16)]) bs)"

section \<open>Dependency sets and the memory of an execution\<close>

text \<open>
  Modelled from the spec: \<^verbatim>\<open>DepSet\<close>, with \<^verbatim>\<open>NewDepSet\<close> and \<^verbatim>\<open>Add\<close>, is not among the source
  files. The specification: ``an ordered, set-semantics container of dependencies keyed by
  id, supporting Add (idempotent), Len, and iteration in insertion order''. A set is the
  list of its dependencies in insertion order, at most one for each id.
\<close>

type_synonym DepSet = "IDer list"

definition DepSet_Add :: "DepSet \<Rightarrow> IDer \<Rightarrow> DepSet" where
  "DepSet_Add ds d = (if String d \<in> set (map String ds) then ds else ds @ [d])"

definition ids :: "DepSet \<Rightarrow> string set" where
  "ids ds = set (map String ds)"

text \<open>
  The memory that an execution reads and writes: the store behind the \<^verbatim>\<open>Recaller\<close>, and the
  dependency sets, which the code shares by pointer (\<^verbatim>\<open>*DepSet\<close>). A pointer is an address,
  \<open>depsets\<close> gives the set at each address, and \<open>next_ptr\<close> is the first address not yet
  handed out.
\<close>

record world =
  cache :: Store
  depsets :: "nat \<Rightarrow> DepSet"
  next_ptr :: nat

text \<open>
  Modelled from the spec: \<^verbatim>\<open>NewDepSet()\<close>, which returns a pointer to a new, empty set
  (``the engine builds fresh used/missing sets per execution'').
\<close>

definition NewDepSet :: "world \<Rightarrow> nat \<times> world" where
  "NewDepSet w =
     (next_ptr w, w\<lparr>depsets := (depsets w)(next_ptr w := []), next_ptr := Suc (next_ptr w)\<rparr>)"

text \<open>Modelled from the spec: \<^verbatim>\<open>p.Add(d)\<close> for a pointer \<open>p\<close> to a set.\<close>

definition Add :: "nat \<Rightarrow> IDer \<Rightarrow> world \<Rightarrow> world" where
  "Add p d w = w\<lparr>depsets := (depsets w)(p := DepSet_Add (depsets w p) d)\<rparr>"

text \<open>
  \<^verbatim>\<open>Recaller\<close> is the read interface of the cache: its one method \<^verbatim>\<open>Recall(key string)\<close>
  reads the store that the implementing object holds. The \<^verbatim>\<open>Recall\<close> of store.go takes an
  \<^verbatim>\<open>IDer\<close> where the interface passes the key itself; \<open>StoreRecaller\<close> hands it the key as an
  \<^verbatim>\<open>IDer\<close> whose \<^verbatim>\<open>String()\<close> is that key.
\<close>

type_synonym Recaller = "Store \<Rightarrow> string \<Rightarrow> val \<times> bool"

definition StoreRecaller :: Recaller where
  "StoreRecaller s key = Recall s (Named key 0)"

section \<open>Template helpers and templates\<close>

text \<open>
  The values of a \<^verbatim>\<open>template.FuncMap\<close>:
  \<^item> \<open>Plain f\<close>, a function of its arguments alone;
  \<^item> \<open>Closure c\<close>, a function that also holds a \<^verbatim>\<open>Recaller\<close> and pointers to dependency
    sets, such as the one \<^verbatim>\<open>fileFunc\<close> returns: it reads and writes the memory;
  \<^item> \<open>DepBinding f\<close>, a function of the type \<^verbatim>\<open>func(Recaller, *DepSet, *DepSet) interface{}\<close>,
    which gets the recaller and the two pointers and returns the value to install.
  A value that is not a function makes \<^verbatim>\<open>tmpl.Funcs\<close> panic; the type has no such value.
\<close>

datatype helper =
  Plain "val list \<Rightarrow> error + val"
| Closure "val list \<Rightarrow> world \<Rightarrow> (error + val) \<times> world"
| DepBinding "Recaller \<Rightarrow> nat \<Rightarrow> nat \<Rightarrow> helper"

text \<open>
  The package \<^verbatim>\<open>text/template\<close> is outside this repository. What matters of a parsed
  template here is what its execution does: it writes text, calls helpers by name and goes
  on according to what they return, fails, or ends.
\<close>

datatype prog =
  Done
| Text string prog
| Call string "val list" "val \<Rightarrow> prog"
| Abort error

text \<open>
  What the operating system and the libraries outside this repository compute is a
  parameter of the model:
  \<^item> \<^verbatim>\<open>filepath.EvalSymlinks\<close>, which reads the file system;
  \<^item> \<^verbatim>\<open>filepath.Rel(basepath, targpath)\<close>;
  \<^item> \<^verbatim>\<open>md5.Sum\<close>, from the bytes of a string to the 16 bytes of its digest;
  \<^item> the parser of \<^verbatim>\<open>text/template\<close>, from the template's name, its two delimiters, whether
    the option is \<^verbatim>\<open>missingkey=error\<close>, the names of the functions defined and the source
    text;
  \<^item> the entries of the map literal in \<^verbatim>\<open>funcMap\<close> other than \<^verbatim>\<open>file\<close>, whose functions are not
    among the source files, as built from the recaller and the two set pointers.
\<close>

record env =
  filepath_EvalSymlinks :: "string \<Rightarrow> error + string"
  filepath_Rel :: "string \<Rightarrow> string \<Rightarrow> error + string"
  md5_Sum :: "string \<Rightarrow> string"
  template_Parse ::
    "string \<Rightarrow> string \<Rightarrow> string \<Rightarrow> bool \<Rightarrow> (string \<Rightarrow> bool) \<Rightarrow> string \<Rightarrow> error + prog"
  other_helpers :: "Recaller \<Rightarrow> nat \<Rightarrow> nat \<Rightarrow> (string \<times> helper) list"

section \<open>The file helper (tfunc/file.go)\<close>

text \<open>\<^verbatim>\<open>pathInSandbox\<close>: \<open>None\<close> is the nil error.\<close>

definition pathInSandbox :: "env \<Rightarrow> string \<Rightarrow> string \<Rightarrow> error option" where
  "pathInSandbox e sandbox path =
     (if sandbox \<noteq> []
      then (case filepath_EvalSymlinks e path of
              Inl err \<Rightarrow> Some err
            | Inr s \<Rightarrow>
                (case filepath_Rel e sandbox s of
                   Inl err \<Rightarrow> Some err
                 | Inr s' \<Rightarrow>
                     if prefix ''..'' s'
                     then Some (Error ([CHR 0x27] @ path @ [CHR 0x27] @ '' is outside of sandbox''))
                     else None))
      else None)"

text \<open>
  \<^verbatim>\<open>NewFileQuery\<close> as file.go defines it. \<^verbatim>\<open>fileFunc\<close> calls the constructor of this name in
  the package \<^verbatim>\<open>internal/dependency\<close>, whose source is not among the files at hand; the
  definition in file.go, with the same name, result type and \<^verbatim>\<open>String\<close> method, stands for
  it. The channel and the stat of a \<^verbatim>\<open>FileQuery\<close> play no part in its identity and are left
  out. The message formats the trimmed string, which is empty there, with \<^verbatim>\<open>%q\<close>.
\<close>

definition NewFileQuery :: "string \<Rightarrow> error + IDer" where
  "NewFileQuery s =
     (let s' = TrimSpace s in
      if s' = [] then Inl (Error (''file: invalid format: '' @ [CHR 0x22, CHR 0x22]))
      else Inr (FileQuery s'))"

text \<open>
  The function that \<^verbatim>\<open>fileFunc(r, used, missing, sandboxPath)\<close> returns, applied to \<open>s\<close> in
  the memory \<open>w\<close>. An error comes with the empty string in Go; \<open>Inr\<close> holds the string
  returned with a nil error. The type assertion \<^verbatim>\<open>value.(string)\<close> panics on a value that is
  neither nil nor a string.
\<close>

definition fileFunc ::
  "env \<Rightarrow> Recaller \<Rightarrow> nat \<Rightarrow> nat \<Rightarrow> string \<Rightarrow> string \<Rightarrow> world \<Rightarrow> (error + string) \<times> world" where
  "fileFunc e r used missing sandboxPath s w =
     (if length s = 0 then (Inr [], w)
      else case pathInSandbox e sandboxPath s of
        Some err \<Rightarrow> (Inl err, w)
      | None \<Rightarrow>
          (case NewFileQuery s of
             Inl err \<Rightarrow> (Inl err, w)
           | Inr d \<Rightarrow>
               (let w1 = Add used d w in
                case r (cache w1) (String d) of
                  (value, True) \<Rightarrow>
                    (case value of
                       Nil \<Rightarrow> (Inr [], w1)
                     | Str x \<Rightarrow> (Inr x, w1)
                     | Other n \<Rightarrow>
                         (Inl (Panic ''interface conversion: interface {} is not string''), w1))
                | (value, False) \<Rightarrow> (Inr [], Add missing d w1))))"

text \<open>
  The same function as the template library calls it, with the arguments of the template:
  the library checks their number and types against \<^verbatim>\<open>func(string) (string, error)\<close>.
\<close>

definition file_helper :: "env \<Rightarrow> Recaller \<Rightarrow> nat \<Rightarrow> nat \<Rightarrow> string \<Rightarrow> helper" where
  "file_helper e r used missing sandboxPath =
     Closure (\<lambda>args w.
       case args of
         [Str s] \<Rightarrow>
           (case fileFunc e r used missing sandboxPath s w of
              (Inl err, w') \<Rightarrow> (Inl err, w')
            | (Inr x, w') \<Rightarrow> (Inr (Str x), w'))
       | _ \<Rightarrow> (Inl (Error ''wrong number or type of args for file''), w))"

section \<open>The template (package hcat)\<close>

text \<open>
  \<^verbatim>\<open>funcMapInput\<close>; the two fields that \<^verbatim>\<open>Template\<close> has under the same name carry the prefix
  \<open>i_\<close>. The fields \<^verbatim>\<open>t\<close> and \<^verbatim>\<open>env\<close> feed helpers that are not among the source files. A Go
  map has one value for each key: a \<^verbatim>\<open>template.FuncMap\<close> is the list of its entries in the
  order in which \<^verbatim>\<open>range\<close> visits them.
\<close>

record funcMapInput =
  store :: Recaller
  i_funcMapMerge :: "(string \<times> helper) list"
  i_sandboxPath :: string
  used :: nat
  missing :: nat

text \<open>One round of the loop over \<^verbatim>\<open>i.funcMapMerge\<close>.\<close>

definition merge_entry ::
  "funcMapInput \<Rightarrow> (string \<rightharpoonup> helper) \<Rightarrow> string \<times> helper \<Rightarrow> (string \<rightharpoonup> helper)" where
  "merge_entry i r kv =
     (case kv of (k, v) \<Rightarrow>
        (case v of
           DepBinding f \<Rightarrow> r(k \<mapsto> f (store i) (used i) (missing i))
         | _ \<Rightarrow> r(k \<mapsto> v)))"

definition funcMap :: "env \<Rightarrow> funcMapInput \<Rightarrow> (string \<rightharpoonup> helper)" where
  "funcMap e i =
     (let r = (map_of (other_helpers e (store i) (used i) (missing i)))
                (''file'' \<mapsto> file_helper e (store i) (used i) (missing i) (i_sandboxPath i))
      in foldl (merge_entry i) r (i_funcMapMerge i))"

text \<open>
  The execution of a parsed template with the functions \<open>fm\<close>, from the memory \<open>w\<close> and the
  output written so far. A helper that returns an error ends the execution with the
  library's wrapper around that error. The last component lists the calls of helpers made,
  each with its name and arguments: the code does not keep this list, properties of an
  execution are stated with it.
\<close>

primrec exec ::
  "(string \<rightharpoonup> helper) \<Rightarrow> prog \<Rightarrow> world \<Rightarrow> string \<Rightarrow> (string \<times> val list) list
     \<Rightarrow> (error + string) \<times> world \<times> (string \<times> val list) list" where
  "exec fm Done = (\<lambda>w out cs. (Inr out, w, cs))"
| "exec fm (Text s p) = (\<lambda>w out cs. exec fm p w (out @ s) cs)"
| "exec fm (Abort err) = (\<lambda>w out cs. (Inl err, w, cs))"
| "exec fm (Call name args k) = (\<lambda>w out cs.
     case fm name of
       None \<Rightarrow> (Inl (Error (''function not defined: '' @ name)), w, cs)
     | Some (Plain f) \<Rightarrow>
         (case f args of
            Inl err \<Rightarrow> (Inl (CallError name err), w, cs @ [(name, args)])
          | Inr v \<Rightarrow> exec fm (k v) w out (cs @ [(name, args)]))
     | Some (Closure c) \<Rightarrow>
         (case c args w of
            (Inl err, w') \<Rightarrow> (Inl (CallError name err), w', cs @ [(name, args)])
          | (Inr v, w') \<Rightarrow> exec fm (k v) w' out (cs @ [(name, args)]))
     | Some (DepBinding f) \<Rightarrow>
         (Inl (Error (''wrong number or type of args for '' @ name)), w, cs))"

text \<open>\<^verbatim>\<open>Renderer\<close> is an interface that no claim here looks into: a renderer is a tag.\<close>

record Template =
  contents :: string
  leftDelim :: string
  rightDelim :: string
  hexMD5 :: string
  errMissingKey :: bool
  funcMapMerge :: "(string \<times> helper) list"
  sandboxPath :: string
  renderer :: nat

record TemplateInput =
  Contents :: string
  ErrMissingKey :: bool
  LeftDelim :: string
  RightDelim :: string
  FuncMapMerge :: "(string \<times> helper) list"
  SandboxPath :: string
  Renderer :: nat

definition NewTemplate :: "env \<Rightarrow> TemplateInput \<Rightarrow> Template" where
  "NewTemplate e i =
     \<lparr>contents = Contents i,
      leftDelim = LeftDelim i,
      rightDelim = RightDelim i,
      hexMD5 = EncodeToString (md5_Sum e (Contents i)),
      errMissingKey = ErrMissingKey i,
      funcMapMerge = FuncMapMerge i,
      sandboxPath = SandboxPath i,
      renderer = Renderer i\<rparr>"

definition ID :: "Template \<Rightarrow> string" where
  "ID t = hexMD5 t"

record ExecuteResult =
  Used :: DepSet
  Missing :: DepSet
  Output :: string

text \<open>
  The functions that \<^verbatim>\<open>Execute\<close> hands to \<^verbatim>\<open>tmpl.Funcs\<close>, for the pointers \<open>u\<close> and \<open>m\<close> to its
  \<^verbatim>\<open>used\<close> and \<^verbatim>\<open>missing\<close> sets.
\<close>

definition Execute_funcs ::
  "env \<Rightarrow> Template \<Rightarrow> Recaller \<Rightarrow> nat \<Rightarrow> nat \<Rightarrow> (string \<rightharpoonup> helper)" where
  "Execute_funcs e t r u m =
     funcMap e \<lparr>store = r, i_funcMapMerge = funcMapMerge t, i_sandboxPath = sandboxPath t,
                used = u, missing = m\<rparr>"

text \<open>
  \<^verbatim>\<open>Execute\<close>, from the memory \<open>w\<close>: the result or the error, the memory afterwards and the
  calls of helpers made.
\<close>

definition Execute ::
  "env \<Rightarrow> Template \<Rightarrow> Recaller \<Rightarrow> world
     \<Rightarrow> (error + ExecuteResult) \<times> world \<times> (string \<times> val list) list" where
  "Execute e t r w =
     (case NewDepSet w of (u, w1) \<Rightarrow>
      case NewDepSet w1 of (m, w2) \<Rightarrow>
        (let fm = Execute_funcs e t r u m in
         case template_Parse e (ID t) (leftDelim t) (rightDelim t) (errMissingKey t)
                (\<lambda>k. fm k \<noteq> None) (contents t) of
           Inl err \<Rightarrow> (Inl (Wrap err ''parse''), w2, [])
         | Inr p \<Rightarrow>
             (case exec fm p w2 [] [] of
                (Inl err, w3, cs) \<Rightarrow> (Inl (Wrap err ''execute''), w3, cs)
              | (Inr out, w3, cs) \<Rightarrow>
                  (Inr \<lparr>Used = depsets w3 u, Missing = depsets w3 m, Output = out\<rparr>, w3, cs))))"

section \<open>What the specification says of helpers\<close>

text \<open>
  The contract of a helper that binds dependencies (specification, 4.E): it builds a
  dependency from its arguments, adds it to \<^verbatim>\<open>used\<close>, looks it up with \<^verbatim>\<open>Recall\<close> and, when it
  is absent, adds it to \<^verbatim>\<open>missing\<close>. \<open>touch\<close> is steps 2 to 4 for the dependency \<open>d\<close>.
\<close>

definition touch :: "Recaller \<Rightarrow> nat \<Rightarrow> nat \<Rightarrow> IDer \<Rightarrow> world \<Rightarrow> world" where
  "touch r u m d w =
     (let w1 = Add u d w in if snd (r (cache w1) (String d)) then w1 else Add m d w1)"

text \<open>
  A helper follows the contract, for \<open>builds\<close> telling which dependency it builds from which
  arguments, when every call that returns without error has touched the dependency built
  and has changed nothing else, or nothing at all when none was built.
\<close>

definition follows_contract ::
  "Recaller \<Rightarrow> nat \<Rightarrow> nat \<Rightarrow> (val list \<Rightarrow> IDer option) \<Rightarrow> helper \<Rightarrow> bool" where
  "follows_contract r u m builds h =
     (case h of
        Plain f \<Rightarrow> (\<forall>args v. f args = Inr v \<longrightarrow> builds args = None)
      | Closure c \<Rightarrow>
          (\<forall>args w v w'. c args w = (Inr v, w') \<longrightarrow>
             w' = (case builds args of None \<Rightarrow> w | Some d \<Rightarrow> touch r u m d w))
      | DepBinding f \<Rightarrow> True)"

text \<open>The dependencies built by the calls of an execution, in the order of the calls.\<close>

definition touched ::
  "(string \<Rightarrow> val list \<Rightarrow> IDer option) \<Rightarrow> (string \<times> val list) list \<Rightarrow> IDer list" where
  "touched builds cs = concat (map (\<lambda>(name, args). case builds name args of None \<Rightarrow> [] | Some d \<Rightarrow> [d]) cs)"

text \<open>
  The dependency that the file helper builds: none for the empty string, for a path that
  the sandbox check refuses and for a path that \<^verbatim>\<open>NewFileQuery\<close> refuses.
\<close>

definition file_builds :: "env \<Rightarrow> string \<Rightarrow> val list \<Rightarrow> IDer option" where
  "file_builds e sandbox args =
     (case args of
        [Str s] \<Rightarrow>
          if s \<noteq> [] \<and> pathInSandbox e sandbox s = None
          then (case NewFileQuery s of Inl err \<Rightarrow> None | Inr d \<Rightarrow> Some d)
          else None
      | _ \<Rightarrow> None)"


text \<open>What the loop of \<^verbatim>\<open>funcMap\<close> installs for the value \<open>v\<close> of an entry.\<close>

definition installed_for :: "Recaller \<Rightarrow> nat \<Rightarrow> nat \<Rightarrow> helper \<Rightarrow> helper" where
  "installed_for r u m v = (case v of DepBinding f \<Rightarrow> f r u m | _ \<Rightarrow> v)"

text \<open>
  The dependencies built when \<^verbatim>\<open>file\<close> is the only helper that binds dependencies.
\<close>

definition file_only_builds :: "env \<Rightarrow> string \<Rightarrow> string \<Rightarrow> val list \<Rightarrow> IDer option" where
  "file_only_builds e sandbox name =
     (if name = ''file'' then file_builds e sandbox else (\<lambda>args. None))"

text \<open>
  What holds between the two sets and the calls made so far while an execution whose helpers
  follow the contract runs: the store is the one it started with, \<^verbatim>\<open>used\<close> holds the ids of
  the dependencies built, and \<^verbatim>\<open>missing\<close> those of them that the recaller does not report
  found.
\<close>

definition tracked ::
  "Recaller \<Rightarrow> Store \<Rightarrow> nat \<Rightarrow> nat \<Rightarrow> (string \<Rightarrow> val list \<Rightarrow> IDer option)
     \<Rightarrow> world \<Rightarrow> (string \<times> val list) list \<Rightarrow> bool" where
  "tracked r S u m builds w cs =
     (cache w = S
      \<and> ids (depsets w u) = ids (touched builds cs)
      \<and> ids (depsets w m) = {k \<in> ids (depsets w u). \<not> snd (r S k)})"

section \<open>An environment for concrete executions\<close>

text \<open>
  A file system with the files \<^verbatim>\<open>/etc/passwd\<close> and \<^verbatim>\<open>/s/f\<close>, the directory \<^verbatim>\<open>/s/a\<close> and no
  symbolic link; \<^verbatim>\<open>filepath.Rel\<close> on the paths that come up; the MD5 digests of the string
  \<^verbatim>\<open>hello\<close> and of the four templates executed below, and sixteen zero bytes in place of
  the digest of any other string, which nothing below looks at; a parser for templates of one action, \<^verbatim>\<open>{{ name }}\<close> or
  \<^verbatim>\<open>{{ name "arg" }}\<close>, which prints what the function returns, any other text being
  literal; and no built-in helper but \<^verbatim>\<open>file\<close>.
\<close>

definition print_val :: "val \<Rightarrow> string" where
  "print_val v = (case v of Str x \<Rightarrow> x | Nil \<Rightarrow> ''<no value>'' | Other n \<Rightarrow> ''<value>'')"

definition example_Parse ::
  "string \<Rightarrow> string \<Rightarrow> string \<Rightarrow> bool \<Rightarrow> (string \<Rightarrow> bool) \<Rightarrow> string \<Rightarrow> error + prog" where
  "example_Parse name l r mk defined src =
     (if 6 \<le> length src \<and> take 3 src = ''{{ '' \<and> drop (length src - 3) src = '' }}''
      then
        (let body = take (length src - 6) (drop 3 src);
             f = takeWhile (\<lambda>c. c \<noteq> CHR 0x20) body;
             rest = drop (length f + 1) body
         in if \<not> defined f then Inl (Error (''function not defined: '' @ f))
            else if rest = [] then Inr (Call f [] (\<lambda>v. Text (print_val v) Done))
            else if 2 \<le> length rest \<and> hd rest = CHR 0x22 \<and> last rest = CHR 0x22
            then Inr (Call f [Str (butlast (tl rest))] (\<lambda>v. Text (print_val v) Done))
            else Inl (Error ''unexpected token''))
      else Inr (Text src Done))"

definition file_template :: "string \<Rightarrow> string" where
  "file_template p = ''{{ file '' @ [CHR 0x22] @ p @ [CHR 0x22] @ '' }}''"

definition example_input :: "string \<Rightarrow> (string \<times> helper) list \<Rightarrow> string \<Rightarrow> TemplateInput" where
  "example_input src fs sandbox =
     \<lparr>Contents = src, ErrMissingKey = False, LeftDelim = [], RightDelim = [],
      FuncMapMerge = fs, SandboxPath = sandbox, Renderer = 0\<rparr>"

definition example_env :: env where
  "example_env =
     \<lparr>filepath_EvalSymlinks = (\<lambda>p.
        if p = ''/s/a/../../etc/passwd'' \<or> p = ''/etc/passwd'' then Inr ''/etc/passwd''
        else if p = ''/s/f'' \<or> p = ''/s/a/../f'' then Inr ''/s/f''
        else Inl (Error (''lstat '' @ p @ '': no such file or directory''))),
      filepath_Rel = (\<lambda>b t.
        if b = ''/s'' \<and> t = ''/etc/passwd'' then Inr ''../etc/passwd''
        else if b = ''/s'' \<and> t = ''/s/f'' then Inr ''f''
        else Inl (Error (''Rel: can not make '' @ t @ '' relative to '' @ b))),
      md5_Sum = (\<lambda>s.
        if s = ''hello''
        then [CHR 0x5D, CHR 0x41, CHR 0x40, CHR 0x2A, CHR 0xBC, CHR 0x4B, CHR 0x2A, CHR 0x76,
              CHR 0xB9, CHR 0x71, CHR 0x9D, CHR 0x91, CHR 0x10, CHR 0x17, CHR 0xC5, CHR 0x92]
        else if s = file_template ''/path/to/file''
        then [CHR 0xAD, CHR 0xEB, CHR 0x17, CHR 0xD5, CHR 0x4D, CHR 0xBE, CHR 0x8D, CHR 0xB0,
              CHR 0x5B, CHR 0x7A, CHR 0xBC, CHR 0x6F, CHR 0xEA, CHR 0xE7, CHR 0xB2, CHR 0x79]
        else if s = file_template ''/s/a/../../etc/passwd''
        then [CHR 0xB1, CHR 0xDF, CHR 0x92, CHR 0xCF, CHR 0xFB, CHR 0xC7, CHR 0x35, CHR 0x33,
              CHR 0x50, CHR 0x00, CHR 0xBB, CHR 0xC5, CHR 0xA6, CHR 0x1A, CHR 0x93, CHR 0xEC]
        else if s = ''{{ leak }}''
        then [CHR 0x06, CHR 0xF9, CHR 0x5B, CHR 0xF5, CHR 0xEA, CHR 0x65, CHR 0xE3, CHR 0x45,
              CHR 0x6F, CHR 0xFD, CHR 0x20, CHR 0x09, CHR 0x94, CHR 0x8C, CHR 0x7C, CHR 0x5C]
        else if s = ''{{ poke }}''
        then [CHR 0x71, CHR 0x98, CHR 0x26, CHR 0x09, CHR 0x1B, CHR 0x48, CHR 0xCF, CHR 0xF8,
              CHR 0x68, CHR 0x6B, CHR 0x0E, CHR 0x58, CHR 0xF5, CHR 0xD1, CHR 0x40, CHR 0x2B]
        else replicate 16 (CHR 0x00)),
      template_Parse = example_Parse,
      other_helpers = (\<lambda>r u m. [])\<rparr>"

text \<open>
  Two helpers that a caller may put into \<^verbatim>\<open>FuncMapMerge\<close>. \<open>leak_binding\<close> has the type
  \<^verbatim>\<open>func(Recaller, *DepSet, *DepSet) interface{}\<close>; the function it returns takes no argument,
  adds the dependency \<^verbatim>\<open>kv.block(app/config)\<close> to the \<^verbatim>\<open>missing\<close> set it was given, and to that
  set only, and returns the empty string. \<open>shout\<close> is a function of one string.
\<close>

definition leak_binding :: helper where
  "leak_binding =
     DepBinding (\<lambda>r u m.
       Closure (\<lambda>args w. (Inr (Str []), Add m (Named ''kv.block(app/config)'' 0) w)))"

definition shout :: helper where
  "shout =
     Plain (\<lambda>args.
       case args of
         [Str s] \<Rightarrow> Inr (Str (s @ ''!''))
       | _ \<Rightarrow> Inl (Error ''wrong number or type of args for shout''))"

text \<open>A memory with an empty store and no dependency set.\<close>

definition empty_world :: world where
  "empty_world = \<lparr>cache = NewStore, depsets = (\<lambda>p. []), next_ptr = 0\<rparr>"

text \<open>
  The template \<^verbatim>\<open>{{ file "/path/to/file" }}\<close> with no sandbox; the memory after its first
  execution from the empty memory; that memory once the value of the file has been saved,
  as the watcher does between two executions; and the memory after the second execution.
\<close>

definition path_template :: Template where
  "path_template = NewTemplate example_env (example_input (file_template ''/path/to/file'') [] [])"

definition after_first :: world where
  "after_first = fst (snd (Execute example_env path_template StoreRecaller empty_world))"

definition fetched :: world where
  "fetched = after_first\<lparr>cache := Save (cache after_first) (FileQuery ''/path/to/file'') (Str ''content'')\<rparr>"

definition after_second :: world where
  "after_second = fst (snd (Execute example_env path_template StoreRecaller fetched))"

text \<open>The template \<^verbatim>\<open>{{ leak }}\<close>, with \<open>leak_binding\<close> as the caller's helper \<^verbatim>\<open>leak\<close>.\<close>

definition leak_template :: Template where
  "leak_template =
     NewTemplate example_env (example_input ''{{ leak }}'' [(''leak'', leak_binding)] [])"

text \<open>
  A helper that a caller may put into \<^verbatim>\<open>FuncMapMerge\<close> and that holds the store itself, not a
  \<^verbatim>\<open>Recaller\<close>: a Go function \<^verbatim>\<open>func() string\<close> whose body calls \<^verbatim>\<open>Save\<close> on the store for the
  dependency \<^verbatim>\<open>kv.block(app/config)\<close> and returns the empty string. \<open>poke_template\<close> is the
  template \<^verbatim>\<open>{{ poke }}\<close> with this helper under the name \<^verbatim>\<open>poke\<close>.
\<close>

definition poke :: helper where
  "poke =
     Closure (\<lambda>args w.
       (Inr (Str []),
        w\<lparr>cache := Save (cache w) (Named ''kv.block(app/config)'' 0) (Str ''v'')\<rparr>))"


section \<open>Properties of the store\<close>

lemma forceSet_String: "forceSet s (String d) v = Save s d v"
  by (simp add: forceSet_def Save_def)

lemma Recall_found_iff: "snd (Recall s d) \<longleftrightarrow> receivedData s (String d) \<noteq> None"
  by (simp add: Recall_def split: option.split)

lemma Recall_not_found: "receivedData s (String d) = None \<Longrightarrow> Recall s d = (Nil, False)"
  by (simp add: Recall_def)

lemma received_apply_call:
  "receivedData (apply_call s c) k \<noteq> None \<longleftrightarrow>
     saves_id k c \<or> (receivedData s k \<noteq> None \<and> \<not> removes_id k c)"
  by (cases c) (auto simp: Save_def Delete_def Reset_def)

lemma saved_and_kept_Nil: "\<not> saved_and_kept [] k"
  by (simp add: saved_and_kept_def)

lemma saved_and_kept_snoc:
  "saved_and_kept (cs @ [c]) k \<longleftrightarrow> saves_id k c \<or> (saved_and_kept cs k \<and> \<not> removes_id k c)"
proof
  assume "saved_and_kept (cs @ [c]) k"
  then obtain i where i: "i < Suc (length cs)" "saves_id k ((cs @ [c]) ! i)"
    and later: "\<forall>j < Suc (length cs). i < j \<longrightarrow> \<not> removes_id k ((cs @ [c]) ! j)"
    by (auto simp: saved_and_kept_def)
  show "saves_id k c \<or> (saved_and_kept cs k \<and> \<not> removes_id k c)"
  proof (cases "i = length cs")
    case True
    with i show ?thesis by simp
  next
    case False
    with i have il: "i < length cs" by simp
    from later[rule_format, of "length cs"] il have nc: "\<not> removes_id k c" by simp
    have "\<forall>j < length cs. i < j \<longrightarrow> \<not> removes_id k (cs ! j)"
    proof (intro allI impI)
      fix j assume j: "j < length cs" "i < j"
      with later[rule_format, of j] show "\<not> removes_id k (cs ! j)"
        by (simp add: nth_append)
    qed
    moreover from i il have "saves_id k (cs ! i)" by (simp add: nth_append)
    ultimately have "saved_and_kept cs k" using il by (auto simp: saved_and_kept_def)
    with nc show ?thesis by simp
  qed
next
  assume r: "saves_id k c \<or> (saved_and_kept cs k \<and> \<not> removes_id k c)"
  show "saved_and_kept (cs @ [c]) k"
  proof (cases "saves_id k c")
    case True
    then have "saves_id k ((cs @ [c]) ! length cs)" by simp
    then show ?thesis unfolding saved_and_kept_def
      by (intro exI[of _ "length cs"]) simp
  next
    case False
    with r obtain i where il: "i < length cs" and s: "saves_id k (cs ! i)"
      and later: "\<forall>j < length cs. i < j \<longrightarrow> \<not> removes_id k (cs ! j)"
      and nc: "\<not> removes_id k c"
      by (auto simp: saved_and_kept_def)
    have "\<forall>j < length (cs @ [c]). i < j \<longrightarrow> \<not> removes_id k ((cs @ [c]) ! j)"
    proof (intro allI impI)
      fix j assume j: "j < length (cs @ [c])" "i < j"
      show "\<not> removes_id k ((cs @ [c]) ! j)"
      proof (cases "j = length cs")
        case True
        with nc show ?thesis by simp
      next
        case False
        with j have "j < length cs" by simp
        with later[rule_format, of j] j show ?thesis by (simp add: nth_append)
      qed
    qed
    moreover from il s have "saves_id k ((cs @ [c]) ! i)" by (simp add: nth_append)
    ultimately show ?thesis unfolding saved_and_kept_def
      using il by (intro exI[of _ i]) simp
  qed
qed

lemma received_run_calls:
  "receivedData (run_calls NewStore cs) k \<noteq> None \<longleftrightarrow> saved_and_kept cs k"
proof (induction cs rule: rev_induct)
  case Nil
  show ?case by (simp add: run_calls_def NewStore_def saved_and_kept_Nil)
next
  case (snoc c cs)
  have "run_calls NewStore (cs @ [c]) = apply_call (run_calls NewStore cs) c"
    by (simp add: run_calls_def)
  then show ?case
    using snoc.IH received_apply_call[of "run_calls NewStore cs" c k]
    by (simp only: saved_and_kept_snoc)
qed

section \<open>Properties of the function map and of the file helper\<close>

lemma foldl_merge_other:
  "k \<notin> fst ` set xs \<Longrightarrow> foldl (merge_entry i) r xs k = r k"
  by (induction xs arbitrary: r) (auto simp: merge_entry_def split: helper.splits)

lemma foldl_merge_entry:
  "distinct (map fst xs) \<Longrightarrow> (k, v) \<in> set xs \<Longrightarrow>
     foldl (merge_entry i) r xs k = Some (installed_for (store i) (used i) (missing i) v)"
proof (induction xs arbitrary: r)
  case Nil
  then show ?case by simp
next
  case (Cons x xs)
  show ?case
  proof (cases "x = (k, v)")
    case True
    with Cons.prems have "k \<notin> fst ` set xs" by auto
    then have "foldl (merge_entry i) (merge_entry i r x) xs k = merge_entry i r x k"
      by (rule foldl_merge_other)
    moreover have "merge_entry i r (k, v) k = Some (installed_for (store i) (used i) (missing i) v)"
      by (simp add: merge_entry_def installed_for_def split: helper.splits)
    ultimately show ?thesis using True by simp
  next
    case False
    with Cons.prems have "(k, v) \<in> set xs" "distinct (map fst xs)" by auto
    then show ?thesis using Cons.IH by simp
  qed
qed

lemma funcMap_file:
  "''file'' \<notin> fst ` set (i_funcMapMerge i) \<Longrightarrow>
     funcMap e i ''file'' = Some (file_helper e (store i) (used i) (missing i) (i_sandboxPath i))"
  by (simp add: funcMap_def foldl_merge_other)

lemma Execute_funcs_file:
  "''file'' \<notin> fst ` set (funcMapMerge t) \<Longrightarrow>
     Execute_funcs e t r u m ''file'' = Some (file_helper e r u m (sandboxPath t))"
  by (simp add: Execute_funcs_def funcMap_file)

lemma fileFunc_refused:
  "s \<noteq> [] \<Longrightarrow> pathInSandbox e sandbox s = Some err \<Longrightarrow>
     fileFunc e r u m sandbox s w = (Inl err, w)"
  by (simp add: fileFunc_def)

lemma exec_file_refused:
  assumes "fm ''file'' = Some (file_helper e r u m sandbox)" "s \<noteq> []"
    "pathInSandbox e sandbox s = Some err"
  shows "exec fm (Call ''file'' [Str s] k) w out cs
           = (Inl (CallError ''file'' err), w, cs @ [(''file'', [Str s])])"
  using assms by (simp add: file_helper_def fileFunc_refused)

lemma cache_Add: "cache (Add p d w) = cache w"
  by (simp add: Add_def)

section \<open>Properties of an execution\<close>

lemma ids_DepSet_Add: "ids (DepSet_Add ds d) = insert (String d) (ids ds)"
  by (auto simp: ids_def DepSet_Add_def)

lemma touch_cache: "cache (touch r u m d w) = cache w"
  by (simp add: touch_def Let_def cache_Add)

lemma touch_used:
  "u \<noteq> m \<Longrightarrow> ids (depsets (touch r u m d w) u) = insert (String d) (ids (depsets w u))"
  by (simp add: touch_def Let_def Add_def ids_DepSet_Add)

lemma touch_missing:
  "u \<noteq> m \<Longrightarrow> ids (depsets (touch r u m d w) m) =
     (if snd (r (cache w) (String d)) then ids (depsets w m)
      else insert (String d) (ids (depsets w m)))"
  by (simp add: touch_def Let_def Add_def ids_DepSet_Add)

lemma touched_snoc:
  "touched builds (cs @ [(name, args)]) =
     touched builds cs @ (case builds name args of None \<Rightarrow> [] | Some d \<Rightarrow> [d])"
  by (simp add: touched_def)

lemma ids_snoc: "ids (ds @ [d]) = insert (String d) (ids ds)"
  by (simp add: ids_def)

lemma ids_Nil: "ids [] = {}"
  by (simp add: ids_def)

lemma tracked_step_none:
  "tracked r S u m builds w cs \<Longrightarrow> builds name args = None \<Longrightarrow>
     tracked r S u m builds w (cs @ [(name, args)])"
  by (simp add: tracked_def touched_snoc)

lemma tracked_step_some:
  assumes "tracked r S u m builds w cs" "builds name args = Some d" "u \<noteq> m"
  shows "tracked r S u m builds (touch r u m d w) (cs @ [(name, args)])"
  using assms
  by (auto simp: tracked_def touched_snoc touch_cache touch_used touch_missing ids_snoc)

lemma exec_tracked:
  assumes contract: "\<forall>name h. fm name = Some h \<longrightarrow> follows_contract r u m (builds name) h"
    and um: "u \<noteq> m"
  shows "exec fm p w out cs = (Inr out', w', cs') \<Longrightarrow> tracked r S u m builds w cs \<Longrightarrow>
     tracked r S u m builds w' cs'"
proof (induction p arbitrary: w out cs)
  case Done
  then show ?case by simp
next
  case (Text s p)
  then show ?case by simp
next
  case (Abort err)
  then show ?case by simp
next
  case (Call name args k)
  show ?case
  proof (cases "fm name")
    case None
    with Call.prems show ?thesis by simp
  next
    case (Some h)
    with contract have fc: "follows_contract r u m (builds name) h" by blast
    show ?thesis
    proof (cases h)
      case (Plain f)
      show ?thesis
      proof (cases "f args")
        case (Inl err)
        with Call.prems Some Plain show ?thesis by simp
      next
        case (Inr v)
        with fc Plain have "builds name args = None"
          by (auto simp: follows_contract_def)
        with Call.prems(2) have "tracked r S u m builds w (cs @ [(name, args)])"
          by (simp add: tracked_step_none)
        moreover from Call.prems(1) Some Plain Inr
        have "exec fm (k v) w out (cs @ [(name, args)]) = (Inr out', w', cs')" by simp
        ultimately show ?thesis using Call.IH by blast
      qed
    next
      case (Closure c)
      obtain res w1 where c: "c args w = (res, w1)" by (cases "c args w")
      show ?thesis
      proof (cases res)
        case (Inl err)
        with Call.prems Some Closure c show ?thesis by simp
      next
        case (Inr v)
        with fc Closure c
        have w1: "w1 = (case builds name args of None \<Rightarrow> w | Some d \<Rightarrow> touch r u m d w)"
          by (auto simp: follows_contract_def)
        have "tracked r S u m builds w1 (cs @ [(name, args)])"
        proof (cases "builds name args")
          case None
          with w1 Call.prems(2) show ?thesis by (simp add: tracked_step_none)
        next
          case (Some d)
          with w1 Call.prems(2) um show ?thesis by (simp add: tracked_step_some)
        qed
        moreover from Call.prems(1) Some Closure c Inr
        have "exec fm (k v) w1 out (cs @ [(name, args)]) = (Inr out', w', cs')" by simp
        ultimately show ?thesis using Call.IH by blast
      qed
    next
      case (DepBinding f)
      with Call.prems Some show ?thesis by simp
    qed
  qed
qed

lemma Execute_success:
  assumes "Execute e t r w = (Inr res, w', cs)"
  obtains p out where
    "template_Parse e (ID t) (leftDelim t) (rightDelim t) (errMissingKey t)
       (\<lambda>k. Execute_funcs e t r (next_ptr w) (Suc (next_ptr w)) k \<noteq> None) (contents t) = Inr p"
    "exec (Execute_funcs e t r (next_ptr w) (Suc (next_ptr w))) p
       (w\<lparr>depsets := (depsets w)(next_ptr w := [], Suc (next_ptr w) := []),
          next_ptr := Suc (Suc (next_ptr w))\<rparr>) [] [] = (Inr out, w', cs)"
    "res = \<lparr>Used = depsets w' (next_ptr w), Missing = depsets w' (Suc (next_ptr w)), Output = out\<rparr>"
  using assms
  by (auto simp: Execute_def NewDepSet_def Let_def split: sum.splits prod.splits)

lemma file_helper_follows_contract:
  "follows_contract r u m (file_builds e sandbox) (file_helper e r u m sandbox)"
proof -
  have "w' = (case file_builds e sandbox args of None \<Rightarrow> w | Some d \<Rightarrow> touch r u m d w)"
    if "(case args of
           [Str s] \<Rightarrow>
             (case fileFunc e r u m sandbox s w of
                (Inl err, w') \<Rightarrow> (Inl err, w')
              | (Inr x, w') \<Rightarrow> (Inr (Str x), w'))
         | _ \<Rightarrow> (Inl (Error ''wrong number or type of args for file''), w)) = (Inr v, w')"
    for args w v w'
  proof -
    from that obtain s where args: "args = [Str s]"
      by (auto split: list.splits val.splits)
    from that args obtain x where f: "fileFunc e r u m sandbox s w = (Inr x, w')"
      by (auto split: prod.splits sum.splits)
    show ?thesis
    proof (cases "s = []")
      case True
      with f args show ?thesis by (simp add: fileFunc_def file_builds_def)
    next
      case False
      with f obtain d where p: "pathInSandbox e sandbox s = None" and d: "NewFileQuery s = Inr d"
        by (auto simp: fileFunc_def split: option.splits sum.splits)
      from f False p d have "w' = touch r u m d w"
        by (auto simp: fileFunc_def touch_def Let_def cache_Add
            split: prod.splits bool.splits val.splits if_splits)
      with args False p d show ?thesis by (simp add: file_builds_def)
    qed
  qed
  then show ?thesis
    unfolding follows_contract_def file_helper_def by simp
qed




lemma merge_entry_installed:
  "merge_entry i r (k, v) = r(k \<mapsto> installed_for (store i) (used i) (missing i) v)"
  by (cases v) (simp_all add: merge_entry_def installed_for_def)



section \<open>Facts about the concrete environment\<close>

lemma example_Parse_passwd:
  "defined ''file'' \<Longrightarrow>
   example_Parse n l r mk defined (file_template ''/s/a/../../etc/passwd'')
     = Inr (Call ''file'' [Str ''/s/a/../../etc/passwd''] (\<lambda>v. Text (print_val v) Done))"
  by (simp add: example_Parse_def file_template_def Let_def)

lemma NewTemplate_example_input:
  "contents (NewTemplate e (example_input src fs sandbox)) = src"
  "leftDelim (NewTemplate e (example_input src fs sandbox)) = []"
  "rightDelim (NewTemplate e (example_input src fs sandbox)) = []"
  "errMissingKey (NewTemplate e (example_input src fs sandbox)) = False"
  "funcMapMerge (NewTemplate e (example_input src fs sandbox)) = fs"
  "sandboxPath (NewTemplate e (example_input src fs sandbox)) = sandbox"
  by (simp_all add: NewTemplate_def example_input_def)

lemma example_env_simps:
  "template_Parse example_env = example_Parse"
  "other_helpers example_env r u m = []"
  by (simp_all add: example_env_def)

lemma example_Parse_path:
  "defined ''file'' \<Longrightarrow>
   example_Parse n l r mk defined (file_template ''/path/to/file'')
     = Inr (Call ''file'' [Str ''/path/to/file''] (\<lambda>v. Text (print_val v) Done))"
  by (simp add: example_Parse_def file_template_def Let_def)

lemma example_Parse_leak:
  "defined ''leak'' \<Longrightarrow>
   example_Parse n l r mk defined ''{{ leak }}''
     = Inr (Call ''leak'' [] (\<lambda>v. Text (print_val v) Done))"
  by (simp add: example_Parse_def Let_def)

lemma TrimSpace_path: "TrimSpace ''/path/to/file'' = ''/path/to/file''"
  by code_simp

lemma fileFunc_path:
  "fileFunc example_env StoreRecaller u m [] ''/path/to/file'' w =
     (if snd (StoreRecaller (cache w) ''file(/path/to/file)'')
      then (case fst (StoreRecaller (cache w) ''file(/path/to/file)'') of
              Nil \<Rightarrow> (Inr [], Add u (FileQuery ''/path/to/file'') w)
            | Str x \<Rightarrow> (Inr x, Add u (FileQuery ''/path/to/file'') w)
            | Other n \<Rightarrow> (Inl (Panic ''interface conversion: interface {} is not string''),
                           Add u (FileQuery ''/path/to/file'') w))
      else (Inr [], Add m (FileQuery ''/path/to/file'') (Add u (FileQuery ''/path/to/file'') w)))"
  by (simp add: fileFunc_def pathInSandbox_def NewFileQuery_def TrimSpace_path Let_def cache_Add
      split: prod.split bool.split val.split)

lemma path_template_simps:
  "contents path_template = file_template ''/path/to/file''"
  "leftDelim path_template = []"
  "rightDelim path_template = []"
  "errMissingKey path_template = False"
  "funcMapMerge path_template = []"
  "sandboxPath path_template = []"
  by (simp_all add: path_template_def NewTemplate_example_input)

lemma Execute_path_template:
  "Execute example_env path_template StoreRecaller w =
     (case fileFunc example_env StoreRecaller (next_ptr w) (Suc (next_ptr w)) [] ''/path/to/file''
             (w\<lparr>depsets := (depsets w)(next_ptr w := [], Suc (next_ptr w) := []),
                next_ptr := Suc (Suc (next_ptr w))\<rparr>) of
        (Inl err, w3) \<Rightarrow>
          (Inl (Wrap (CallError ''file'' err) ''execute''), w3, [(''file'', [Str ''/path/to/file''])])
      | (Inr x, w3) \<Rightarrow>
          (Inr \<lparr>Used = depsets w3 (next_ptr w), Missing = depsets w3 (Suc (next_ptr w)),
                Output = x\<rparr>, w3, [(''file'', [Str ''/path/to/file''])]))"
  by (simp add: Execute_def NewDepSet_def Let_def path_template_simps
      example_env_simps example_Parse_path Execute_funcs_file file_helper_def print_val_def
      split: prod.split sum.split)

lemma after_first_simps:
  "cache after_first = NewStore" "next_ptr after_first = 2"
  "depsets after_first 0 = [FileQuery ''/path/to/file'']"
  "depsets after_first 1 = [FileQuery ''/path/to/file'']"
  by (simp_all add: after_first_def Execute_path_template fileFunc_path
      StoreRecaller_def Recall_def empty_world_def NewStore_def Add_def DepSet_Add_def)

lemma Execute_first:
  "Execute example_env path_template StoreRecaller empty_world
   = (Inr \<lparr>Used = [FileQuery ''/path/to/file''], Missing = [FileQuery ''/path/to/file''],
           Output = []\<rparr>, after_first, [(''file'', [Str ''/path/to/file''])])"
  by (simp add: after_first_def Execute_path_template fileFunc_path
      StoreRecaller_def Recall_def empty_world_def NewStore_def Add_def DepSet_Add_def)

lemma Execute_second:
  "Execute example_env path_template StoreRecaller fetched
   = (Inr \<lparr>Used = [FileQuery ''/path/to/file''], Missing = [], Output = ''content''\<rparr>,
      after_second, [(''file'', [Str ''/path/to/file''])])"
  by (simp add: after_second_def prod_eq_iff fetched_def Execute_path_template fileFunc_path after_first_simps
      StoreRecaller_def Recall_def Save_def NewStore_def Add_def DepSet_Add_def)

lemma leak_template_simps:
  "contents leak_template = ''{{ leak }}''"
  "leftDelim leak_template = []"
  "rightDelim leak_template = []"
  "errMissingKey leak_template = False"
  "funcMapMerge leak_template = [(''leak'', leak_binding)]"
  "sandboxPath leak_template = []"
  by (simp_all add: leak_template_def NewTemplate_example_input)

lemma Execute_funcs_path_template:
  "Execute_funcs example_env path_template StoreRecaller u m =
     [''file'' \<mapsto> file_helper example_env StoreRecaller u m []]"
  by (simp add: Execute_funcs_def funcMap_def path_template_simps example_env_simps)

lemma path_template_contract:
  "\<forall>name h. Execute_funcs example_env path_template StoreRecaller u m name = Some h \<longrightarrow>
     follows_contract StoreRecaller u m (file_only_builds example_env [] name) h"
  by (simp add: Execute_funcs_path_template file_only_builds_def file_helper_follows_contract)

lemma Execute_funcs_leak:
  "Execute_funcs example_env leak_template StoreRecaller u m ''leak''
     = Some (Closure (\<lambda>args w. (Inr (Str []), Add m (Named ''kv.block(app/config)'' 0) w)))"
  by (simp add: Execute_funcs_def funcMap_def leak_template_simps example_env_simps
      merge_entry_installed installed_for_def leak_binding_def)

lemma Execute_leak_template:
  "Execute example_env leak_template StoreRecaller w =
     (Inr \<lparr>Used = [],
           Missing = [Named ''kv.block(app/config)'' 0], Output = []\<rparr>,
      Add (Suc (next_ptr w)) (Named ''kv.block(app/config)'' 0)
        (w\<lparr>depsets := (depsets w)(next_ptr w := [], Suc (next_ptr w) := []),
           next_ptr := Suc (Suc (next_ptr w))\<rparr>),
      [(''leak'', [])])"
  by (simp add: Execute_def NewDepSet_def Let_def leak_template_simps example_env_simps
      example_Parse_leak Execute_funcs_leak print_val_def Add_def DepSet_Add_def)





lemma hello_digest:
  "EncodeToString (md5_Sum example_env ''hello'') = ''5d41402abc4b2a76b9719d911017c592''"
  by code_simp

section \<open>The claims\<close>

text \<open>
  C1. Start from a new store and make any sequence of calls of \<^verbatim>\<open>Save\<close>, \<^verbatim>\<open>Recall\<close>, \<^verbatim>\<open>Delete\<close>
  and \<^verbatim>\<open>Reset\<close>. Then \<^verbatim>\<open>Recall\<close> reports an id found if and only if some call passed it to
  \<^verbatim>\<open>Save\<close> and no later call was a \<^verbatim>\<open>Delete\<close> of that id or a \<^verbatim>\<open>Reset\<close>; an id that is not
  found recalls \<open>(nil, false)\<close>. For any store, \<^verbatim>\<open>Save\<close> followed by \<^verbatim>\<open>Delete\<close> of the same
  dependency makes it recall \<open>(nil, false)\<close>, and after \<^verbatim>\<open>Reset\<close> every dependency recalls
  \<open>(nil, false)\<close>.
\<close>

theorem Recall_found_iff_saved_and_kept:
  "(snd (Recall (run_calls NewStore cs) d) \<longleftrightarrow> saved_and_kept cs (String d))
   \<and> (\<not> saved_and_kept cs (String d) \<longrightarrow> Recall (run_calls NewStore cs) d = (Nil, False))
   \<and> Recall (Delete (Save s d v) d) d = (Nil, False)
   \<and> Recall (Reset s) d' = (Nil, False)"
proof (intro conjI impI)
  show "snd (Recall (run_calls NewStore cs) d) \<longleftrightarrow> saved_and_kept cs (String d)"
    by (simp only: Recall_found_iff received_run_calls)
next
  assume "\<not> saved_and_kept cs (String d)"
  then have "receivedData (run_calls NewStore cs) (String d) = None"
    using received_run_calls[of cs "String d"] by blast
  then show "Recall (run_calls NewStore cs) d = (Nil, False)"
    by (rule Recall_not_found)
next
  show "Recall (Delete (Save s d v) d) d = (Nil, False)"
    by (simp add: Recall_def Delete_def Save_def)
next
  show "Recall (Reset s) d' = (Nil, False)"
    by (simp add: Recall_def Reset_def)
qed

theorem Recall_found_iff_saved_and_kept_witness:
  "saved_and_kept
     [CallSave (FileQuery ''/a'') (Str ''x''), CallSave (Named ''k'' 0) Nil,
      CallDelete (Named ''file(/a)'' 1), CallRecall (Named ''k'' 0)] ''k''
   \<and> \<not> saved_and_kept
     [CallSave (FileQuery ''/a'') (Str ''x''), CallSave (Named ''k'' 0) Nil,
      CallDelete (Named ''file(/a)'' 1), CallRecall (Named ''k'' 0)] ''file(/a)''
   \<and> Recall (run_calls NewStore
     [CallSave (FileQuery ''/a'') (Str ''x''), CallSave (Named ''k'' 0) Nil,
      CallDelete (Named ''file(/a)'' 1), CallRecall (Named ''k'' 0)]) (FileQuery ''/a'')
       = (Nil, False)
   \<and> Recall (run_calls NewStore
     [CallSave (FileQuery ''/a'') (Str ''x''), CallSave (Named ''k'' 0) Nil,
      CallDelete (Named ''file(/a)'' 1), CallRecall (Named ''k'' 0)]) (Named ''k'' 5)
       = (Nil, True)"
  using Recall_found_iff_saved_and_kept
    [of "[CallSave (FileQuery ''/a'') (Str ''x''), CallSave (Named ''k'' 0) Nil,
          CallDelete (Named ''file(/a)'' 1), CallRecall (Named ''k'' 0)]" "Named ''k'' 5"]
    Recall_found_iff_saved_and_kept
    [of "[CallSave (FileQuery ''/a'') (Str ''x''), CallSave (Named ''k'' 0) Nil,
          CallDelete (Named ''file(/a)'' 1), CallRecall (Named ''k'' 0)]" "FileQuery ''/a''"]
  by (simp add: run_calls_def NewStore_def Save_def Delete_def Recall_def)

text \<open>
  C3. For every dependency and every value, the nil value included, \<^verbatim>\<open>Save\<close> followed by
  \<^verbatim>\<open>Recall\<close> of the same dependency returns the value with \<open>true\<close>. So a saved nil recalls
  \<open>(nil, true)\<close>, while in a new store, where nothing was saved, the dependency recalls
  \<open>(nil, false)\<close>.
\<close>

theorem Save_then_Recall:
  "Recall (Save s d v) d = (v, True)
   \<and> Recall (Save s d Nil) d = (Nil, True)
   \<and> Recall NewStore d = (Nil, False)"
  by (simp add: Recall_def Save_def NewStore_def)

theorem Save_then_Recall_witness:
  "Recall (Save NewStore (FileQuery ''/etc/hosts'') Nil) (FileQuery ''/etc/hosts'') = (Nil, True)
   \<and> Recall NewStore (FileQuery ''/etc/hosts'') = (Nil, False)
   \<and> Recall (Save NewStore (FileQuery ''/etc/hosts'') (Str ''h'')) (FileQuery ''/etc/hosts'')
       = (Str ''h'', True)"
  using Save_then_Recall[of NewStore "FileQuery ''/etc/hosts''" "Str ''h''"]
  by simp

text \<open>
  C8. The store reads nothing of a dependency but its \<^verbatim>\<open>String()\<close>: two dependencies with the
  same identity give the same store after \<^verbatim>\<open>Save\<close>, the same answer to \<^verbatim>\<open>Recall\<close> and the same
  store after \<^verbatim>\<open>Delete\<close>.
\<close>

theorem equal_identity_interchangeable:
  assumes "String d1 = String d2"
  shows "Save s d1 v = Save s d2 v \<and> Recall s d1 = Recall s d2 \<and> Delete s d1 = Delete s d2"
  unfolding Save_def Recall_def Delete_def assms by simp

theorem equal_identity_interchangeable_witness:
  "String (FileQuery ''/a'') = String (Named ''file(/a)'' 7)
   \<and> FileQuery ''/a'' \<noteq> Named ''file(/a)'' 7
   \<and> Save NewStore (FileQuery ''/a'') (Str ''x'') = Save NewStore (Named ''file(/a)'' 7) (Str ''x'')
   \<and> Recall (Save NewStore (FileQuery ''/a'') (Str ''x'')) (Named ''file(/a)'' 7) = (Str ''x'', True)
   \<and> Delete (Save NewStore (FileQuery ''/a'') (Str ''x'')) (FileQuery ''/a'')
       = Delete (Save NewStore (FileQuery ''/a'') (Str ''x'')) (Named ''file(/a)'' 7)"
proof -
  have h: "String (FileQuery ''/a'') = String (Named ''file(/a)'' 7)" by simp
  have r: "Recall (Save NewStore (FileQuery ''/a'') (Str ''x'')) (FileQuery ''/a'') = (Str ''x'', True)"
    by (simp add: Recall_def Save_def)
  show ?thesis
    using h r
      equal_identity_interchangeable[OF h, of NewStore "Str ''x''"]
      equal_identity_interchangeable[OF h, of "Save NewStore (FileQuery ''/a'') (Str ''x'')" Nil]
    by simp
qed

text \<open>
  C4. With a sandbox root configured, when the path resolves (\<^verbatim>\<open>EvalSymlinks\<close>) and the
  resolved path, made relative to the root (\<^verbatim>\<open>Rel\<close>), begins with \<^verbatim>\<open>..\<close>, \<^verbatim>\<open>pathInSandbox\<close>
  returns exactly the error \<^verbatim>\<open>'<path>' is outside of sandbox\<close>, with the path as it was
  given. The file helper, called with such a path, returns that error and leaves the memory
  as it was, and a template that calls \<^verbatim>\<open>file\<close> on the path fails in \<^verbatim>\<open>Execute\<close> with that
  error, wrapped by the template library and then with \<^verbatim>\<open>execute\<close>.
\<close>

theorem sandbox_violation:
  assumes "sandbox \<noteq> []" and "filepath_EvalSymlinks e path = Inr s"
    and "filepath_Rel e sandbox s = Inr rel" and "prefix ''..'' rel"
  shows "pathInSandbox e sandbox path
           = Some (Error ([CHR 0x27] @ path @ [CHR 0x27] @ '' is outside of sandbox''))
     \<and> (path \<noteq> [] \<longrightarrow>
          fileFunc e r u m sandbox path w
            = (Inl (Error ([CHR 0x27] @ path @ [CHR 0x27] @ '' is outside of sandbox'')), w))
     \<and> (path \<noteq> [] \<and> sandboxPath t = sandbox \<and> ''file'' \<notin> fst ` set (funcMapMerge t)
          \<and> template_Parse e (ID t) (leftDelim t) (rightDelim t) (errMissingKey t)
               (\<lambda>k. Execute_funcs e t r (next_ptr w) (Suc (next_ptr w)) k \<noteq> None) (contents t)
              = Inr (Call ''file'' [Str path] k) \<longrightarrow>
          fst (Execute e t r w)
            = Inl (Wrap (CallError ''file''
                (Error ([CHR 0x27] @ path @ [CHR 0x27] @ '' is outside of sandbox''))) ''execute''))"
proof -
  let ?err = "Error ([CHR 0x27] @ path @ [CHR 0x27] @ '' is outside of sandbox'')"
  have p: "pathInSandbox e sandbox path = Some ?err"
    using assms by (simp add: pathInSandbox_def)
  have f: "path \<noteq> [] \<longrightarrow> fileFunc e r u m sandbox path w = (Inl ?err, w)"
    using p by (simp add: fileFunc_refused)
  have x: "fst (Execute e t r w) = Inl (Wrap (CallError ''file'' ?err) ''execute'')"
    if "path \<noteq> []" "sandboxPath t = sandbox" "''file'' \<notin> fst ` set (funcMapMerge t)"
      "template_Parse e (ID t) (leftDelim t) (rightDelim t) (errMissingKey t)
               (\<lambda>k. Execute_funcs e t r (next_ptr w) (Suc (next_ptr w)) k \<noteq> None) (contents t)
              = Inr (Call ''file'' [Str path] k)"
  proof -
    have fm: "Execute_funcs e t r (next_ptr w) (Suc (next_ptr w)) ''file''
                = Some (file_helper e r (next_ptr w) (Suc (next_ptr w)) sandbox)"
      using that(2,3) by (simp add: Execute_funcs_file)
    have "exec (Execute_funcs e t r (next_ptr w) (Suc (next_ptr w))) (Call ''file'' [Str path] k) w2 [] []
            = (Inl (CallError ''file'' ?err), w2, [] @ [(''file'', [Str path])])" for w2
      using fm that(1) p by (rule exec_file_refused)
    then show ?thesis
      using that(4) by (simp add: Execute_def NewDepSet_def)
  qed
  from p f x show ?thesis by blast
qed


theorem sandbox_violation_witness:
  "pathInSandbox example_env ''/s'' ''/s/a/../../etc/passwd''
     = Some (Error ([CHR 0x27] @ ''/s/a/../../etc/passwd'' @ [CHR 0x27] @ '' is outside of sandbox''))
   \<and> fileFunc example_env StoreRecaller 0 1 ''/s'' ''/s/a/../../etc/passwd'' empty_world
     = (Inl (Error ([CHR 0x27] @ ''/s/a/../../etc/passwd'' @ [CHR 0x27] @ '' is outside of sandbox'')),
        empty_world)
   \<and> fst (Execute example_env
        (NewTemplate example_env (example_input (file_template ''/s/a/../../etc/passwd'') [] ''/s''))
        StoreRecaller empty_world)
     = Inl (Wrap (CallError ''file''
         (Error ([CHR 0x27] @ ''/s/a/../../etc/passwd'' @ [CHR 0x27] @ '' is outside of sandbox'')))
         ''execute'')"
proof -
  let ?t = "NewTemplate example_env (example_input (file_template ''/s/a/../../etc/passwd'') [] ''/s'')"
  have h1: "''/s'' \<noteq> []" by simp
  have h2: "filepath_EvalSymlinks example_env ''/s/a/../../etc/passwd'' = Inr ''/etc/passwd''"
    by (simp add: example_env_def)
  have h3: "filepath_Rel example_env ''/s'' ''/etc/passwd'' = Inr ''../etc/passwd''"
    by (simp add: example_env_def)
  have h4: "prefix ''..'' ''../etc/passwd''" by simp
  have f: "Execute_funcs example_env ?t StoreRecaller (next_ptr empty_world)
             (Suc (next_ptr empty_world)) ''file'' \<noteq> None"
    by (simp add: Execute_funcs_file NewTemplate_example_input)
  have p: "template_Parse example_env (ID ?t) (leftDelim ?t) (rightDelim ?t) (errMissingKey ?t)
             (\<lambda>k. Execute_funcs example_env ?t StoreRecaller (next_ptr empty_world)
                     (Suc (next_ptr empty_world)) k \<noteq> None) (contents ?t)
           = Inr (Call ''file'' [Str ''/s/a/../../etc/passwd''] (\<lambda>v. Text (print_val v) Done))"
    unfolding example_env_simps NewTemplate_example_input
    using f by (rule example_Parse_passwd)
  show ?thesis
    using sandbox_violation[OF h1 h2 h3 h4, of StoreRecaller 0 1 empty_world ?t
        "\<lambda>v. Text (print_val v) Done"] p
    by (simp add: NewTemplate_example_input)
qed

text \<open>
  C10. Called with the empty string, the file helper returns the empty string and no error
  and leaves the memory, with both dependency sets, as it was, whatever the sandbox root
  and whatever the file system would answer: the sandbox check is not consulted.
\<close>

theorem file_empty_string:
  "fileFunc e r u m sandbox [] w = (Inr [], w)"
  by (simp add: fileFunc_def)

theorem file_empty_string_witness:
  "pathInSandbox example_env ''/s'' [] = Some (Error ''lstat : no such file or directory'')
   \<and> fileFunc example_env StoreRecaller 0 1 ''/s'' [] empty_world = (Inr [], empty_world)"
  using file_empty_string[of example_env StoreRecaller 0 1 "''/s''" empty_world]
  by (simp add: pathInSandbox_def example_env_def)

text \<open>
  C5, as amended. For every non-empty path that the sandbox check accepts and that is not
  only white space, the file helper adds the dependency \<^verbatim>\<open>file(<trimmed path>)\<close> to \<^verbatim>\<open>used\<close>.
  When the recaller reports the id received, it returns the stored string, or the empty
  string for a stored nil, and the \<^verbatim>\<open>missing\<close> set is as before; when the id is absent, it
  adds the dependency to \<^verbatim>\<open>missing\<close> as well and returns the empty string with no error.
  For a non-empty path of white space only that the sandbox check accepts, the helper
  returns the error of \<^verbatim>\<open>NewFileQuery\<close> and leaves the memory, with both sets, as it was.
\<close>

theorem file_accepted_path:
  assumes "s \<noteq> []" and "pathInSandbox e sandbox s = None"
  shows "(TrimSpace s \<noteq> [] \<longrightarrow>
       (r (cache w) (String (FileQuery (TrimSpace s))) = (Str x, True) \<longrightarrow>
            fileFunc e r u m sandbox s w = (Inr x, Add u (FileQuery (TrimSpace s)) w))
     \<and> (r (cache w) (String (FileQuery (TrimSpace s))) = (Nil, True) \<longrightarrow>
            fileFunc e r u m sandbox s w = (Inr [], Add u (FileQuery (TrimSpace s)) w))
     \<and> (\<not> snd (r (cache w) (String (FileQuery (TrimSpace s)))) \<longrightarrow>
            fileFunc e r u m sandbox s w
              = (Inr [], Add m (FileQuery (TrimSpace s)) (Add u (FileQuery (TrimSpace s)) w)))
     \<and> String (FileQuery (TrimSpace s)) \<in> ids (depsets (Add u (FileQuery (TrimSpace s)) w) u)
     \<and> String (FileQuery (TrimSpace s))
          \<in> ids (depsets (Add m (FileQuery (TrimSpace s)) (Add u (FileQuery (TrimSpace s)) w)) m)
     \<and> (u \<noteq> m \<longrightarrow> depsets (Add u (FileQuery (TrimSpace s)) w) m = depsets w m))
   \<and> (TrimSpace s = [] \<longrightarrow>
       fileFunc e r u m sandbox s w
         = (Inl (Error (''file: invalid format: '' @ [CHR 0x22, CHR 0x22])), w))"
proof (intro conjI impI)
  assume "TrimSpace s = []"
  with assms
  show "fileFunc e r u m sandbox s w
         = (Inl (Error (''file: invalid format: '' @ [CHR 0x22, CHR 0x22])), w)"
    by (simp add: fileFunc_def NewFileQuery_def Let_def)
qed (use assms in \<open>auto simp: fileFunc_def NewFileQuery_def Let_def cache_Add Add_def ids_def
      DepSet_Add_def split: prod.splits bool.splits val.splits\<close>)

theorem file_accepted_path_witness:
  "fileFunc example_env StoreRecaller 0 1 ''/s'' ''/s/f''
       (empty_world\<lparr>cache := Save NewStore (FileQuery ''/s/f'') (Str ''content'')\<rparr>)
     = (Inr ''content'',
        Add 0 (FileQuery ''/s/f'')
          (empty_world\<lparr>cache := Save NewStore (FileQuery ''/s/f'') (Str ''content'')\<rparr>))
   \<and> fileFunc example_env StoreRecaller 0 1 ''/s'' ''/s/f'' empty_world
     = (Inr [], Add 1 (FileQuery ''/s/f'') (Add 0 (FileQuery ''/s/f'') empty_world))
   \<and> depsets (Add 1 (FileQuery ''/s/f'') (Add 0 (FileQuery ''/s/f'') empty_world)) 0
     = [FileQuery ''/s/f'']
   \<and> depsets (Add 1 (FileQuery ''/s/f'') (Add 0 (FileQuery ''/s/f'') empty_world)) 1
     = [FileQuery ''/s/f'']"
proof -
  have h1: "''/s/f'' \<noteq> []" by simp
  have h2: "pathInSandbox example_env ''/s'' ''/s/f'' = None"
    by (simp add: pathInSandbox_def example_env_def)
  have t: "TrimSpace ''/s/f'' = ''/s/f''"
    by code_simp
  have h3: "TrimSpace ''/s/f'' \<noteq> []" by (simp add: t)
  show ?thesis
    using h3 file_accepted_path[OF h1 h2, of StoreRecaller
        "empty_world\<lparr>cache := Save NewStore (FileQuery ''/s/f'') (Str ''content'')\<rparr>"
        "''content''" 0 1]
      file_accepted_path[OF h1 h2, of StoreRecaller empty_world "''content''" 0 1]
    by (simp add: t StoreRecaller_def Recall_def Save_def NewStore_def empty_world_def
        Add_def DepSet_Add_def)
qed

text \<open>
  The claim as it stands fails for a path of white space only. With no sandbox root the
  check accepts the path \<^verbatim>\<open>" "\<close>, \<^verbatim>\<open>NewFileQuery\<close> refuses it, and the helper returns that
  error without adding anything to \<^verbatim>\<open>used\<close>.
\<close>

theorem file_blank_path_counterexample:
  "'' '' \<noteq> []
   \<and> pathInSandbox example_env [] '' '' = None
   \<and> fileFunc example_env StoreRecaller 0 1 [] '' '' empty_world
       = (Inl (Error (''file: invalid format: '' @ [CHR 0x22, CHR 0x22])), empty_world)
   \<and> depsets empty_world 0 = []"
  by (simp add: pathInSandbox_def fileFunc_def NewFileQuery_def TrimSpace_def
      leading_space_def trailing_space_def space_runes_def empty_world_def)

text \<open>
  C2, as amended. Take an execution of \<^verbatim>\<open>Execute\<close> that returns without error, in which every
  helper installed follows the contract of a helper that binds dependencies, as the file
  helper does. Then the ids of the returned \<^verbatim>\<open>used\<close> set are exactly the ids of the
  dependencies built by the helper calls of that execution, \<^verbatim>\<open>missing\<close> is a subset of
  \<^verbatim>\<open>used\<close>, and the ids of \<^verbatim>\<open>missing\<close> are those of \<^verbatim>\<open>used\<close> that the recaller does not report
  found in the store. This holds whatever the memory holds before, the sets of earlier
  executions included: the two sets are made empty for the execution.
\<close>

theorem Execute_used_missing:
  assumes ex: "Execute e t r w = (Inr res, w', cs)"
    and contract: "\<forall>name h. Execute_funcs e t r (next_ptr w) (Suc (next_ptr w)) name = Some h \<longrightarrow>
        follows_contract r (next_ptr w) (Suc (next_ptr w)) (builds name) h"
  shows "ids (Used res) = ids (touched builds cs)
     \<and> ids (Missing res) \<subseteq> ids (Used res)
     \<and> ids (Missing res) = {k \<in> ids (Used res). \<not> snd (r (cache w) k)}"
proof -
  let ?u = "next_ptr w" and ?m = "Suc (next_ptr w)"
  let ?w2 = "w\<lparr>depsets := (depsets w)(?u := [], ?m := []), next_ptr := Suc ?m\<rparr>"
  from ex obtain p out where
    run: "exec (Execute_funcs e t r ?u ?m) p ?w2 [] [] = (Inr out, w', cs)"
    and res: "res = \<lparr>Used = depsets w' ?u, Missing = depsets w' ?m, Output = out\<rparr>"
    by (rule Execute_success)
  have start: "tracked r (cache w) ?u ?m builds ?w2 []"
    by (simp add: tracked_def touched_def ids_Nil)
  have "tracked r (cache w) ?u ?m builds w' cs"
    using contract _ run start by (rule exec_tracked) simp
  with res show ?thesis by (auto simp: tracked_def)
qed

theorem Execute_used_missing_witness:
  "fst (Execute example_env path_template StoreRecaller empty_world)
     = Inr \<lparr>Used = [FileQuery ''/path/to/file''], Missing = [FileQuery ''/path/to/file''],
            Output = []\<rparr>
   \<and> fst (Execute example_env path_template StoreRecaller fetched)
     = Inr \<lparr>Used = [FileQuery ''/path/to/file''], Missing = [], Output = ''content''\<rparr>
   \<and> ids [FileQuery ''/path/to/file'']
     = ids (touched (file_only_builds example_env []) [(''file'', [Str ''/path/to/file''])])
   \<and> ids [FileQuery ''/path/to/file'']
     = {k \<in> ids [FileQuery ''/path/to/file'']. \<not> snd (StoreRecaller (cache empty_world) k)}
   \<and> ids [] = {k \<in> ids [FileQuery ''/path/to/file'']. \<not> snd (StoreRecaller (cache fetched) k)}"
proof -
  note a = Execute_used_missing[OF Execute_first path_template_contract,
      unfolded ExecuteResult.select_convs]
  note b = Execute_used_missing[OF Execute_second path_template_contract,
      unfolded ExecuteResult.select_convs]
  from Execute_first
  have e1: "fst (Execute example_env path_template StoreRecaller empty_world)
     = Inr \<lparr>Used = [FileQuery ''/path/to/file''], Missing = [FileQuery ''/path/to/file''],
            Output = []\<rparr>"
    by simp
  from Execute_second
  have e2: "fst (Execute example_env path_template StoreRecaller fetched)
     = Inr \<lparr>Used = [FileQuery ''/path/to/file''], Missing = [], Output = ''content''\<rparr>"
    by simp
  from e1 e2 a b show ?thesis by blast
qed

text \<open>
  The claim as it stands fails when the caller supplies a helper that does not follow the
  contract: \<^verbatim>\<open>Execute\<close> hands it the two sets themselves. The template \<^verbatim>\<open>{{ leak }}\<close> executes
  without error and returns a \<^verbatim>\<open>missing\<close> set that is not a subset of \<^verbatim>\<open>used\<close>.
\<close>

theorem Execute_leak_counterexample:
  "fst (Execute example_env leak_template StoreRecaller empty_world)
     = Inr \<lparr>Used = [], Missing = [Named ''kv.block(app/config)'' 0], Output = []\<rparr>
   \<and> \<not> ids [Named ''kv.block(app/config)'' 0] \<subseteq> ids []"
  by (simp add: Execute_leak_template ids_def)

text \<open>
  C6. The id of a template is the hexadecimal encoding of the MD5 digest of its contents,
  stored in the template when it is made; two inputs with the same contents give the same
  id, whatever their other fields.
\<close>

theorem Template_ID:
  "ID (NewTemplate e i) = EncodeToString (md5_Sum e (Contents i))
   \<and> ID (NewTemplate e i) = hexMD5 (NewTemplate e i)
   \<and> (Contents i = Contents j \<longrightarrow> ID (NewTemplate e i) = ID (NewTemplate e j))"
  by (simp add: ID_def NewTemplate_def)

theorem Template_ID_witness:
  "ID (NewTemplate example_env (example_input ''hello'' [] []))
     = ''5d41402abc4b2a76b9719d911017c592''
   \<and> ID (NewTemplate example_env
        \<lparr>Contents = ''hello'', ErrMissingKey = True, LeftDelim = ''<<'', RightDelim = ''>>'',
         FuncMapMerge = [(''shout'', shout)], SandboxPath = ''/s'', Renderer = 3\<rparr>)
     = ''5d41402abc4b2a76b9719d911017c592''"
proof -
  let ?i = "example_input ''hello'' [] []"
  let ?j = "\<lparr>Contents = ''hello'', ErrMissingKey = True, LeftDelim = ''<<'', RightDelim = ''>>'',
        FuncMapMerge = [(''shout'', shout)], SandboxPath = ''/s'', Renderer = 3\<rparr>"
  note t = Template_ID[of example_env ?i ?j]
  have c: "Contents ?i = ''hello''" "Contents ?j = ''hello''"
    by (simp_all add: example_input_def)
  from t have "ID (NewTemplate example_env ?i)
      = EncodeToString (md5_Sum example_env (Contents ?i))" by blast
  with c hello_digest have i: "ID (NewTemplate example_env ?i) = ''5d41402abc4b2a76b9719d911017c592''"
    by simp
  from t have "Contents ?i = Contents ?j \<longrightarrow>
      ID (NewTemplate example_env ?i) = ID (NewTemplate example_env ?j)" by blast
  with c have "ID (NewTemplate example_env ?i) = ID (NewTemplate example_env ?j)" by simp
  with i have "ID (NewTemplate example_env ?j) = ''5d41402abc4b2a76b9719d911017c592''" by simp
  with i show ?thesis by blast
qed

text \<open>
  C7. For an entry of the caller's map whose value has the type
  \<^verbatim>\<open>func(Recaller, *DepSet, *DepSet) interface{}\<close>, \<^verbatim>\<open>funcMap\<close> installs under the entry's key
  what that function returns for the recaller and the \<^verbatim>\<open>used\<close> and \<^verbatim>\<open>missing\<close> pointers of its
  input; any other entry is installed as it is. (A Go map has one entry for each key.)
  \<^verbatim>\<open>Execute\<close> builds its functions this way once, from its recaller and the pointers to the
  two sets it has just made.
\<close>

theorem funcMap_merge:
  "(distinct (map fst (i_funcMapMerge i)) \<and> (k, v) \<in> set (i_funcMapMerge i) \<longrightarrow>
      funcMap e i k
        = Some (case v of DepBinding f \<Rightarrow> f (store i) (used i) (missing i) | _ \<Rightarrow> v))
   \<and> (distinct (map fst (funcMapMerge t)) \<and> (k, v) \<in> set (funcMapMerge t) \<longrightarrow>
      Execute_funcs e t r u m k = Some (case v of DepBinding f \<Rightarrow> f r u m | _ \<Rightarrow> v))"
proof (intro conjI impI)
  assume a: "distinct (map fst (i_funcMapMerge i)) \<and> (k, v) \<in> set (i_funcMapMerge i)"
  then show "funcMap e i k
        = Some (case v of DepBinding f \<Rightarrow> f (store i) (used i) (missing i) | _ \<Rightarrow> v)"
    using foldl_merge_entry[of "i_funcMapMerge i" k v i]
    by (simp add: funcMap_def installed_for_def)
next
  let ?i = "\<lparr>store = r, i_funcMapMerge = funcMapMerge t, i_sandboxPath = sandboxPath t,
             used = u, missing = m\<rparr>"
  assume a: "distinct (map fst (funcMapMerge t)) \<and> (k, v) \<in> set (funcMapMerge t)"
  then show "Execute_funcs e t r u m k = Some (case v of DepBinding f \<Rightarrow> f r u m | _ \<Rightarrow> v)"
    using foldl_merge_entry[of "funcMapMerge t" k v ?i]
    by (simp add: Execute_funcs_def funcMap_def installed_for_def)
qed

theorem funcMap_merge_witness:
  "funcMap example_env
      \<lparr>store = StoreRecaller, i_funcMapMerge = [(''leak'', leak_binding), (''shout'', shout)],
       i_sandboxPath = [], used = 0, missing = 1\<rparr> ''leak''
     = Some (Closure (\<lambda>args w. (Inr (Str []), Add 1 (Named ''kv.block(app/config)'' 0) w)))
   \<and> funcMap example_env
      \<lparr>store = StoreRecaller, i_funcMapMerge = [(''leak'', leak_binding), (''shout'', shout)],
       i_sandboxPath = [], used = 0, missing = 1\<rparr> ''shout''
     = Some shout
   \<and> Execute_funcs example_env leak_template StoreRecaller 2 3 ''leak''
     = Some (Closure (\<lambda>args w. (Inr (Str []), Add 3 (Named ''kv.block(app/config)'' 0) w)))"
  using funcMap_merge[of "\<lparr>store = StoreRecaller,
        i_funcMapMerge = [(''leak'', leak_binding), (''shout'', shout)],
        i_sandboxPath = [], used = 0, missing = 1\<rparr>" "''leak''" leak_binding example_env
        leak_template StoreRecaller 2 3]
    funcMap_merge[of "\<lparr>store = StoreRecaller,
        i_funcMapMerge = [(''leak'', leak_binding), (''shout'', shout)],
        i_sandboxPath = [], used = 0, missing = 1\<rparr>" "''shout''" shout example_env
        leak_template StoreRecaller 2 3]
  by (simp add: leak_template_simps leak_binding_def shout_def)




end
